theory Spec2Isabelle
  imports Complex_Main
begin

section \<open>The plotter's data model\<close>

text \<open>
  The program is \<^verbatim>\<open>src/index.js\<close>. Its numbers are JavaScript numbers, that is
  IEEE doubles. The theory embeds the code twice. The first embedding reads the formulas
  over \<^typ>\<open>real\<close> with exact arithmetic; it is the one in which the algebra of the
  transforms and of the grid step is stated. The second embedding, further down (its
  names end in \<open>D\<close>), rounds every arithmetic result to the nearest double, as the
  program does; it is the one in which the statements about exact pixels and about
  termination are tested, and refuted. Results of the user's expression may also be
  \<^verbatim>\<open>NaN\<close> or an infinity, which the type \<open>jsnum\<close> below adds.

  \<^verbatim>\<open>config\<close> (lines 7-16) is a record with the same fields and defaults.
\<close>

record config =
  scale :: real
  offsetX :: real
  offsetY :: real
  step :: real
  axisColor :: string
  gridColor :: string
  lineColor :: string
  lineWidth :: real

definition initial_config :: config where
  "initial_config =
     \<lparr> scale = 40, offsetX = 0, offsetY = 0, step = 0.05,
       axisColor = ''#fff'', gridColor = ''rgba(255, 255, 255, 0.1)'',
       lineColor = ''#06b6d4'', lineWidth = 3 \<rparr>"

text \<open>
  The remaining globals: the viewport (lines 19-20), the interaction state (lines 73-75)
  and the text of the input box, which \<^verbatim>\<open>drawCurve\<close> reads as \<^verbatim>\<open>input.value\<close>.
\<close>

record plot =
  cfg :: config
  width :: nat
  height :: nat
  centerX :: real
  centerY :: real
  isDragging :: bool
  lastMouseX :: real
  lastMouseY :: real
  inputValue :: string

text \<open>
  The state after the script has loaded and \<^verbatim>\<open>resize()\<close> (line 341) has read a
  viewport of \<open>w\<close> by \<open>h\<close> pixels. The first content of the input box belongs to
  the page, not to the script; it is empty here and set by the input event.
\<close>

definition initial_plot :: "nat \<Rightarrow> nat \<Rightarrow> plot" where
  "initial_plot w h =
     \<lparr> cfg = initial_config, width = w, height = h,
       centerX = real w / 2, centerY = real h / 2,
       isDragging = False, lastMouseX = 0, lastMouseY = 0, inputValue = [] \<rparr>"

section \<open>Event handlers\<close>

text \<open>
  Each handler is a function from the state before the event to the state after it. The
  call of \<^verbatim>\<open>draw()\<close> that ends most handlers only paints; it writes none of the
  globals, so it does not appear in the state transformers.
\<close>

text \<open>\<^verbatim>\<open>resize\<close>, lines 22-30.\<close>

definition resize :: "nat \<Rightarrow> nat \<Rightarrow> plot \<Rightarrow> plot" where
  "resize w h s = s\<lparr> width := w, height := h, centerX := real w / 2, centerY := real h / 2 \<rparr>"

text \<open>The click handler of the reset button, lines 33-38.\<close>

definition resetView :: "plot \<Rightarrow> plot" where
  "resetView s = s\<lparr> cfg := (cfg s)\<lparr> scale := 40, offsetX := 0, offsetY := 0 \<rparr> \<rparr>"

text \<open>\<^verbatim>\<open>mousedown\<close>, lines 77-84: only the left button (button 0) starts a drag.\<close>

definition mousedown :: "int \<Rightarrow> real \<Rightarrow> real \<Rightarrow> plot \<Rightarrow> plot" where
  "mousedown button clientX clientY s =
     (if button = 0
      then s\<lparr> isDragging := True, lastMouseX := clientX, lastMouseY := clientY \<rparr>
      else s)"

text \<open>\<^verbatim>\<open>mouseup\<close>, lines 86-89.\<close>

definition mouseup :: "plot \<Rightarrow> plot" where
  "mouseup s = s\<lparr> isDragging := False \<rparr>"

text \<open>
  \<^verbatim>\<open>mousemove\<close>, lines 91-120: the pan. Both offsets are updated with the scale
  read from the same, unchanged, \<^verbatim>\<open>config.scale\<close>.
\<close>

definition mousemove :: "real \<Rightarrow> real \<Rightarrow> plot \<Rightarrow> plot" where
  "mousemove clientX clientY s =
     (if isDragging s then
        let dx = clientX - lastMouseX s;
            dy = clientY - lastMouseY s;
            c = cfg s;
            c1 = c\<lparr> offsetX := offsetX c + dx / scale c \<rparr>;
            c2 = c1\<lparr> offsetY := offsetY c1 + dy / scale c1 \<rparr>
        in s\<lparr> cfg := c2, lastMouseX := clientX, lastMouseY := clientY \<rparr>
      else s)"

text \<open>
  \<^verbatim>\<open>wheel\<close>, lines 122-162. The event carries \<^verbatim>\<open>deltaY\<close> and the client position;
  \<open>rectLeft\<close> and \<open>rectTop\<close> are the corner of \<^verbatim>\<open>canvas.getBoundingClientRect()\<close>.
  The two clamping statements are run in the order of the source.
\<close>

definition wheel :: "real \<Rightarrow> real \<Rightarrow> real \<Rightarrow> real \<Rightarrow> real \<Rightarrow> plot \<Rightarrow> plot" where
  "wheel deltaY clientX clientY rectLeft rectTop s =
     (let zoomIntensity = 0.1;
          direction = (if deltaY < 0 then 1 else - 1);
          factor = 1 + zoomIntensity * direction;
          mouseX = clientX - rectLeft;
          mouseY = clientY - rectTop;
          c = cfg s;
          mathX = (mouseX - centerX s) / scale c - offsetX c;
          mathY = - (mouseY - centerY s) / scale c + offsetY c;
          newScale = scale c * factor;
          newScale = (if newScale < 0.001 then 0.001 else newScale);
          newScale = (if newScale > 100000 then 100000 else newScale);
          c1 = c\<lparr> scale := newScale \<rparr>;
          c2 = c1\<lparr> offsetX := (mouseX - centerX s) / scale c1 - mathX \<rparr>;
          c3 = c2\<lparr> offsetY := mathY - (centerY s - mouseY) / scale c2 \<rparr>
      in s\<lparr> cfg := c3 \<rparr>)"

text \<open>The events the page reacts to, and the dispatch to their handlers.\<close>

datatype event =
    Resize nat nat
  | ResetClick
  | InputChanged string
  | MouseDown int real real
  | MouseUp
  | MouseMove real real
  | Wheel real real real real real

fun handle :: "plot \<Rightarrow> event \<Rightarrow> plot" where
  "handle s (Resize w h) = resize w h s"
| "handle s ResetClick = resetView s"
| "handle s (InputChanged e) = s\<lparr> inputValue := e \<rparr>"
| "handle s (MouseDown b x y) = mousedown b x y s"
| "handle s MouseUp = mouseup s"
| "handle s (MouseMove x y) = mousemove x y s"
| "handle s (Wheel d x y l t) = wheel d x y l t s"

definition run :: "plot \<Rightarrow> event list \<Rightarrow> plot" where
  "run s evs = foldl handle s evs"

section \<open>The coordinate transforms\<close>

text \<open>
  The code has no function for the transforms; it writes the formulas where it needs
  them. \<open>mathToScreen\<close> is the pair of pixel formulas used when painting (line 219
  for x, lines 238 and 311 for y); \<open>screenToMath\<close> is the pair of lines 136 and 138
  (line 295 is the x formula again).
\<close>

definition mathToScreen :: "plot \<Rightarrow> real \<times> real \<Rightarrow> real \<times> real" where
  "mathToScreen s p =
     (centerX s + (fst p + offsetX (cfg s)) * scale (cfg s),
      centerY s - (snd p - offsetY (cfg s)) * scale (cfg s))"

definition screenToMath :: "plot \<Rightarrow> real \<times> real \<Rightarrow> real \<times> real" where
  "screenToMath s q =
     ((fst q - centerX s) / scale (cfg s) - offsetX (cfg s),
      - (snd q - centerY s) / scale (cfg s) + offsetY (cfg s))"

section \<open>The grid\<close>

text \<open>
  \<^verbatim>\<open>calculateStep\<close>, lines 164-180. \<^verbatim>\<open>Math.log10\<close> is \<open>log 10\<close>,
  \<^verbatim>\<open>Math.floor\<close> is \<open>\<lfloor>_\<rfloor>\<close> and \<^verbatim>\<open>Math.pow(10, n)\<close> is \<open>10 powr n\<close>.
\<close>

definition calculateStep :: "config \<Rightarrow> real" where
  "calculateStep c =
     (let targetPixels = 80;
          stepUnits = targetPixels / scale c;
          magnitude = 10 powr real_of_int \<lfloor>log 10 stepUnits\<rfloor>;
          residual = stepUnits / magnitude
      in if residual > 5 then 10 * magnitude
         else if residual > 2 then 5 * magnitude
         else if residual > 1 then 2 * magnitude
         else magnitude)"

text \<open>
  What the painting functions send to the 2D context: the path and text calls, in the
  order they are made. Assignments of styles (colours, widths, fonts, alignment) do not
  change which calls are made and are left out. A tick label is the number whose
  \<^verbatim>\<open>toString()\<close> is painted; the origin label is the literal string of line 276.
\<close>

datatype label = NumLabel real | StrLabel string

datatype cmd =
    ClearRect real real real real
  | BeginPath
  | MoveTo real real
  | LineTo real real
  | FillText label real real
  | Stroke

text \<open>
  The two tick loops of \<^verbatim>\<open>drawGrid\<close> (lines 216-230 and 236-248) have the shape
  \<^verbatim>\<open>for (let v = lo; v <= hi; v += step) body(v)\<close>. Nothing in the code bounds
  the number of iterations, so the loop is a partial function: \<open>None\<close> is a loop that
  never ends. \<open>acc\<close> collects the calls made so far.
\<close>

partial_function (option) tickLoop ::
    "(real \<Rightarrow> cmd list) \<Rightarrow> real \<Rightarrow> real \<Rightarrow> real \<Rightarrow> cmd list \<Rightarrow> cmd list option" where
  "tickLoop body stp hi v acc =
     (if v \<le> hi then tickLoop body stp hi (v + stp) (acc @ body v) else Some acc)"

text \<open>
  The bodies of the two loops. \<open>fix\<close> stands for the library round trip
  \<^verbatim>\<open>parseFloat(x.toPrecision(10))\<close> of lines 218 and 237.
\<close>

definition xTick :: "(real \<Rightarrow> real) \<Rightarrow> plot \<Rightarrow> real \<Rightarrow> cmd list" where
  "xTick fix s x =
     (let c = cfg s;
          val = fix x;
          screenX = centerX s + (val + offsetX c) * scale c
      in [MoveTo screenX 0, LineTo screenX (real (height s))] @
         (if \<bar>val\<bar> > 1 / 10 ^ 10 then
            let labelY = centerY s + offsetY c * scale c + 8;
                labelY = min (max labelY 5) (real (height s) - 20)
            in [FillText (NumLabel val) screenX labelY]
          else []))"

definition yTick :: "(real \<Rightarrow> real) \<Rightarrow> plot \<Rightarrow> real \<Rightarrow> cmd list" where
  "yTick fix s y =
     (let c = cfg s;
          val = fix y;
          screenY = centerY s - (val - offsetY c) * scale c
      in [MoveTo 0 screenY, LineTo (real (width s)) screenY] @
         (if \<bar>val\<bar> > 1 / 10 ^ 10 then
            let labelX = centerX s + offsetX c * scale c - 8;
                labelX = min (max labelX 30) (real (width s) - 5)
            in [FillText (NumLabel val) labelX screenY]
          else []))"

text \<open>The axes and the origin label, lines 251-277.\<close>

definition drawAxes :: "plot \<Rightarrow> cmd list" where
  "drawAxes s =
     (let c = cfg s;
          w = real (width s);
          h = real (height s);
          pxZeroY = centerY s + offsetY c * scale c;
          pxZeroX = centerX s + offsetX c * scale c
      in [BeginPath] @
         (if pxZeroY \<ge> - 10 \<and> pxZeroY \<le> h + 10 then [MoveTo 0 pxZeroY, LineTo w pxZeroY] else []) @
         (if pxZeroX \<ge> - 10 \<and> pxZeroX \<le> w + 10 then [MoveTo pxZeroX 0, LineTo pxZeroX h] else []) @
         [Stroke] @
         (if pxZeroX > 0 \<and> pxZeroX < w \<and> pxZeroY > 0 \<and> pxZeroY < h
          then [FillText (StrLabel ''0'') (pxZeroX - 5) (pxZeroY + 5)] else []))"

text \<open>
  \<^verbatim>\<open>drawGrid\<close>, lines 182-278: the visible range, the loop bounds, the two loops
  in sequence, then the axes. It returns a result only if both loops end.
\<close>

definition drawGrid :: "(real \<Rightarrow> real) \<Rightarrow> plot \<Rightarrow> cmd list option" where
  "drawGrid fix s =
     (let c = cfg s;
          w = real (width s);
          h = real (height s);
          stp = calculateStep c;
          startX = - centerX s / scale c - offsetX c;
          endX = (w - centerX s) / scale c - offsetX c;
          startY = - centerY s / scale c + offsetY c;
          endY = (h - centerY s) / scale c + offsetY c;
          minX = real_of_int \<lfloor>startX / stp\<rfloor> * stp;
          maxX = real_of_int \<lceil>endX / stp\<rceil> * stp;
          minY = real_of_int \<lfloor>min startY endY / stp\<rfloor> * stp;
          maxY = real_of_int \<lceil>max startY endY / stp\<rceil> * stp
      in case tickLoop (xTick fix s) stp maxX minX [ClearRect 0 0 w h, BeginPath] of
           None \<Rightarrow> None
         | Some a1 \<Rightarrow>
             (case tickLoop (yTick fix s) stp maxY minY a1 of
                None \<Rightarrow> None
              | Some a2 \<Rightarrow> Some (a2 @ [Stroke] @ drawAxes s)))"

section \<open>The expression evaluator and the curve\<close>

text \<open>
  A value of the user's expression: a finite number, \<^verbatim>\<open>NaN\<close> or an infinity. The
  expression is taken to produce a JavaScript number when it produces a value at all.
\<close>

datatype jsnum = Num real | NaN | PosInfinity | NegInfinity

fun isNaN :: "jsnum \<Rightarrow> bool" where
  "isNaN NaN = True"
| "isNaN _ = False"

fun isFinite :: "jsnum \<Rightarrow> bool" where
  "isFinite (Num _) = True"
| "isFinite _ = False"

text \<open>
  The JavaScript engine behind \<^verbatim>\<open>new Function(...)\<close> is not code of the
  repository; it is a parameter. Building the function from the expression either throws
  (\<open>Inl\<close>, a syntax error) or gives a function, and calling that function on \<open>x\<close>
  either throws or returns a number. \<open>'e\<close> is the type of thrown values.
\<close>

type_synonym 'e engine = "string \<Rightarrow> 'e + (real \<Rightarrow> 'e + jsnum)"

text \<open>
  \<^verbatim>\<open>evaluateFunction\<close>, lines 52-70. The inner \<open>case\<close> is the body of the
  \<^verbatim>\<open>try\<close> block (construct, then call); the outer one is the \<^verbatim>\<open>catch\<close>.
  The result type keeps the possibility of a throw, so that its absence is a theorem.
\<close>

definition evaluateFunction :: "'e engine \<Rightarrow> string \<Rightarrow> real \<Rightarrow> 'e + jsnum" where
  "evaluateFunction newFunction expression x =
     (case (case newFunction expression of
              Inl e \<Rightarrow> Inl e
            | Inr f \<Rightarrow> f x) of
        Inl e \<Rightarrow> Inr NaN
      | Inr v \<Rightarrow> Inr v)"

text \<open>The math x of a pixel column, line 295.\<close>

definition columnX :: "plot \<Rightarrow> real \<Rightarrow> real" where
  "columnX s xPixel = (xPixel - centerX s) / scale (cfg s) - offsetX (cfg s)"

text \<open>
  The sample of one column, lines 295-302: the math x of the column, the call of the
  evaluator, and the \<^verbatim>\<open>try\<close>/\<^verbatim>\<open>catch\<close> around the call, which turns a
  throw into \<^verbatim>\<open>NaN\<close>.
\<close>

definition sampleColumn :: "'e engine \<Rightarrow> plot \<Rightarrow> string \<Rightarrow> nat \<Rightarrow> jsnum" where
  "sampleColumn nf s expression xPixel =
     (let x = columnX s (real xPixel)
      in case evaluateFunction nf expression x of Inl e \<Rightarrow> NaN | Inr v \<Rightarrow> v)"

text \<open>
  The loop of \<^verbatim>\<open>drawCurve\<close>, lines 293-327, over the pixel columns still to visit,
  with the flag \<^verbatim>\<open>firstPoint\<close> as it stands before the column. The test of line
  304 sends every value that is not a finite number to the \<^verbatim>\<open>continue\<close> branch,
  so the last branch of the \<open>case\<close> is never taken.
\<close>

fun curveLoop :: "'e engine \<Rightarrow> plot \<Rightarrow> string \<Rightarrow> nat list \<Rightarrow> bool \<Rightarrow> cmd list" where
  "curveLoop nf s expression [] firstPoint = []"
| "curveLoop nf s expression (xPixel # cols) firstPoint =
     (let y = sampleColumn nf s expression xPixel
      in if isNaN y \<or> \<not> isFinite y then curveLoop nf s expression cols True
         else (case y of
                 Num yv \<Rightarrow>
                   (let yPixel = centerY s - (yv - offsetY (cfg s)) * scale (cfg s)
                    in (if firstPoint then MoveTo (real xPixel) yPixel
                        else LineTo (real xPixel) yPixel)
                       # curveLoop nf s expression cols False)
               | _ \<Rightarrow> curveLoop nf s expression cols True))"

text \<open>
  \<^verbatim>\<open>drawCurve\<close>, lines 280-333: nothing is painted for an empty expression;
  otherwise the columns \<open>0, \<dots>, width\<close> are visited in order.
\<close>

definition drawCurve :: "'e engine \<Rightarrow> plot \<Rightarrow> cmd list" where
  "drawCurve nf s =
     (let expression = inputValue s
      in if expression = [] then []
         else [BeginPath] @ curveLoop nf s expression [0..<Suc (width s)] True @ [Stroke])"

text \<open>\<^verbatim>\<open>draw\<close>, lines 335-338.\<close>

definition draw :: "(real \<Rightarrow> real) \<Rightarrow> 'e engine \<Rightarrow> plot \<Rightarrow> cmd list option" where
  "draw fix nf s =
     (case drawGrid fix s of None \<Rightarrow> None | Some g \<Rightarrow> Some (g @ drawCurve nf s))"

text \<open>
  The path segments of a sequence of calls, as the 2D context builds them: a
  \<^verbatim>\<open>moveTo\<close> opens a new subpath, the \<^verbatim>\<open>lineTo\<close> calls that follow extend
  it, and a \<^verbatim>\<open>lineTo\<close> with no open subpath opens one at its point.
\<close>

fun pointOf :: "cmd \<Rightarrow> (real \<times> real) option" where
  "pointOf (MoveTo x y) = Some (x, y)"
| "pointOf (LineTo x y) = Some (x, y)"
| "pointOf _ = None"

fun isLineTo :: "cmd \<Rightarrow> bool" where
  "isLineTo (LineTo x y) = True"
| "isLineTo _ = False"

fun isMoveTo :: "cmd \<Rightarrow> bool" where
  "isMoveTo (MoveTo x y) = True"
| "isMoveTo _ = False"

function subpaths :: "cmd list \<Rightarrow> (real \<times> real) list list" where
  "subpaths [] = []"
| "subpaths (c # cs) =
     (case pointOf c of
        Some p \<Rightarrow> (p # map (the \<circ> pointOf) (takeWhile isLineTo cs)) # subpaths (dropWhile isLineTo cs)
      | None \<Rightarrow> subpaths cs)"
  by pat_completeness auto
termination
  by (relation "measure length") (auto simp: less_Suc_eq_le length_dropWhile_le)

text \<open>
  An engine used to run the model on a concrete input: it builds a function that is
  \<^verbatim>\<open>NaN\<close> exactly on the open interval from \<open>-1\<close> to \<open>1\<close>.
\<close>

definition gap_engine :: "string engine" where
  "gap_engine e = Inr (\<lambda>x. if - 1 < x \<and> x < 1 then Inr NaN else Inr (Num (x * x - 1)))"

section \<open>Expressions whose value is not a number\<close>

text \<open>
  The function built from the expression may return any JavaScript value. The sampler
  passes it to \<^verbatim>\<open>isNaN\<close> and \<^verbatim>\<open>isFinite\<close> (line 304), which first convert
  their argument to a number; that conversion throws a \<^verbatim>\<open>TypeError\<close> on a BigInt
  and on a Symbol. The values below are the primitive ones whose conversion runs no
  further code (strings and objects are left out).
\<close>

datatype jsval = JNumber jsnum | JBigInt int | JSymbol | JUndefined | JNull | JBoolean bool

datatype jsthrow = TypeError

text \<open>The conversion \<^verbatim>\<open>ToNumber\<close> of the language, on these values.\<close>

fun toNumber :: "jsval \<Rightarrow> jsthrow + jsnum" where
  "toNumber (JNumber n) = Inr n"
| "toNumber (JBigInt i) = Inl TypeError"
| "toNumber JSymbol = Inl TypeError"
| "toNumber JUndefined = Inr NaN"
| "toNumber JNull = Inr (Num 0)"
| "toNumber (JBoolean b) = Inr (Num (if b then 1 else 0))"

text \<open>An engine whose functions return values of any of these kinds.\<close>

type_synonym 'e vengine = "string \<Rightarrow> 'e + (real \<Rightarrow> 'e + jsval)"

text \<open>
  \<^verbatim>\<open>evaluateFunction\<close>, lines 52-70, again: the same \<^verbatim>\<open>try\<close> and
  \<^verbatim>\<open>catch\<close>, with a value of any kind passed through.
\<close>

definition evaluateFunctionV :: "'e vengine \<Rightarrow> string \<Rightarrow> real \<Rightarrow> 'e + jsval" where
  "evaluateFunctionV newFunction expression x =
     (case (case newFunction expression of
              Inl e \<Rightarrow> Inl e
            | Inr f \<Rightarrow> f x) of
        Inl e \<Rightarrow> Inr (JNumber NaN)
      | Inr v \<Rightarrow> Inr v)"

text \<open>The sample of one column, lines 295-302, again.\<close>

definition sampleColumnV :: "'e vengine \<Rightarrow> plot \<Rightarrow> string \<Rightarrow> nat \<Rightarrow> jsval" where
  "sampleColumnV nf s expression xPixel =
     (let x = columnX s (real xPixel)
      in case evaluateFunctionV nf expression x of Inl e \<Rightarrow> JNumber NaN | Inr v \<Rightarrow> v)"

text \<open>
  The loop of \<^verbatim>\<open>drawCurve\<close>, lines 293-327, again. The test of line 304 is
  outside the \<^verbatim>\<open>try\<close> of lines 298-302: when the conversion of the sample
  throws, the throw leaves the loop and the function (\<open>Inl\<close>), and the calls that
  would have followed, \<^verbatim>\<open>stroke()\<close> among them, are not made. On a value that
  converts, \<^verbatim>\<open>isNaN\<close>, \<^verbatim>\<open>isFinite\<close> and the subtraction of line 311 all see
  the converted number.
\<close>

fun curveLoopV :: "'e vengine \<Rightarrow> plot \<Rightarrow> string \<Rightarrow> nat list \<Rightarrow> bool \<Rightarrow> jsthrow + cmd list" where
  "curveLoopV nf s expression [] firstPoint = Inr []"
| "curveLoopV nf s expression (xPixel # cols) firstPoint =
     (let y = sampleColumnV nf s expression xPixel
      in case toNumber y of
           Inl t \<Rightarrow> Inl t
         | Inr n \<Rightarrow>
             if isNaN n \<or> \<not> isFinite n then curveLoopV nf s expression cols True
             else (case n of
                     Num yv \<Rightarrow>
                       (let yPixel = centerY s - (yv - offsetY (cfg s)) * scale (cfg s)
                        in case curveLoopV nf s expression cols False of
                             Inl t \<Rightarrow> Inl t
                           | Inr rest \<Rightarrow>
                               Inr ((if firstPoint then MoveTo (real xPixel) yPixel
                                     else LineTo (real xPixel) yPixel) # rest))
                   | _ \<Rightarrow> curveLoopV nf s expression cols True))"

text \<open>\<^verbatim>\<open>drawCurve\<close>, lines 280-333, again.\<close>

definition drawCurveV :: "'e vengine \<Rightarrow> plot \<Rightarrow> jsthrow + cmd list" where
  "drawCurveV nf s =
     (let expression = inputValue s
      in if expression = [] then Inr []
         else (case curveLoopV nf s expression [0..<Suc (width s)] True of
                 Inl t \<Rightarrow> Inl t
               | Inr cs \<Rightarrow> Inr ([BeginPath] @ cs @ [Stroke])))"

text \<open>
  A number-valued engine seen as an engine of values, and the function that the engine
  builds from the expression \<^verbatim>\<open>x == 0 ? 1n : 1\<close>: a BigInt at \<open>0\<close>, the number
  \<open>1\<close> elsewhere.
\<close>

definition numberEngine :: "'e engine \<Rightarrow> 'e vengine" where
  "numberEngine nf expression =
     (case nf expression of
        Inl e \<Rightarrow> Inl e
      | Inr f \<Rightarrow> Inr (\<lambda>x. case f x of Inl e \<Rightarrow> Inl e | Inr n \<Rightarrow> Inr (JNumber n)))"

definition bigint_engine :: "string vengine" where
  "bigint_engine e = Inr (\<lambda>x. Inr (if x = 0 then JBigInt 1 else JNumber (Num 1)))"

section \<open>The arithmetic of doubles\<close>

text \<open>
  Every arithmetic operation of the program returns the double nearest to the exact
  result, ties going to the even neighbour, and an infinity when that neighbour lies
  beyond the largest double. \<open>quantumExp x\<close> is the exponent of the spacing of the
  doubles around \<open>x\<close> (52 below the exponent of \<open>x\<close>, and never below \<open>-1074\<close>, the
  spacing of the subnormal numbers); \<open>toDouble\<close> is the rounding. A finite double is
  a real that \<open>toDouble\<close> leaves unchanged. The model has one zero: the sign of a zero
  shows in the program only through a division by it, and a division by a zero returns
  here what it returns for the positive zero.
\<close>

definition roundEven :: "real \<Rightarrow> int" where
  "roundEven y =
     (let f = \<lfloor>y\<rfloor>;
          r = y - real_of_int f
      in if r < 1 / 2 then f
         else if 1 / 2 < r then f + 1
         else if even f then f else f + 1)"

definition quantumExp :: "real \<Rightarrow> int" where
  "quantumExp x = max \<lfloor>log 2 \<bar>x\<bar>\<rfloor> (- 1022) - 52"

definition toDouble :: "real \<Rightarrow> jsnum" where
  "toDouble x =
     (if x = 0 then Num 0
      else let q = 2 powr real_of_int (quantumExp x);
               r = real_of_int (roundEven (x / q)) * q
           in if 2 ^ 1024 \<le> \<bar>r\<bar> then (if 0 < x then PosInfinity else NegInfinity)
              else Num r)"

text \<open>
  Negation, addition, subtraction, multiplication, division and the comparisons of the
  language on numbers, with their rules for \<^verbatim>\<open>NaN\<close> and the infinities.
\<close>

fun jsNeg :: "jsnum \<Rightarrow> jsnum" where
  "jsNeg (Num a) = Num (- a)"
| "jsNeg NaN = NaN"
| "jsNeg PosInfinity = NegInfinity"
| "jsNeg NegInfinity = PosInfinity"

fun jsAdd :: "jsnum \<Rightarrow> jsnum \<Rightarrow> jsnum" where
  "jsAdd (Num a) (Num b) = toDouble (a + b)"
| "jsAdd NaN y = NaN"
| "jsAdd x NaN = NaN"
| "jsAdd PosInfinity NegInfinity = NaN"
| "jsAdd NegInfinity PosInfinity = NaN"
| "jsAdd PosInfinity y = PosInfinity"
| "jsAdd NegInfinity y = NegInfinity"
| "jsAdd (Num a) y = y"

definition jsSub :: "jsnum \<Rightarrow> jsnum \<Rightarrow> jsnum" where
  "jsSub x y = jsAdd x (jsNeg y)"

fun jsMul :: "jsnum \<Rightarrow> jsnum \<Rightarrow> jsnum" where
  "jsMul (Num a) (Num b) = toDouble (a * b)"
| "jsMul NaN y = NaN"
| "jsMul x NaN = NaN"
| "jsMul (Num a) y = (if a = 0 then NaN else if 0 < a then y else jsNeg y)"
| "jsMul x (Num b) = (if b = 0 then NaN else if 0 < b then x else jsNeg x)"
| "jsMul PosInfinity y = y"
| "jsMul NegInfinity y = jsNeg y"

fun jsDiv :: "jsnum \<Rightarrow> jsnum \<Rightarrow> jsnum" where
  "jsDiv (Num a) (Num b) =
     (if b = 0 then (if a = 0 then NaN else if 0 < a then PosInfinity else NegInfinity)
      else toDouble (a / b))"
| "jsDiv NaN y = NaN"
| "jsDiv x NaN = NaN"
| "jsDiv (Num a) y = Num 0"
| "jsDiv x (Num b) = (if 0 \<le> b then x else jsNeg x)"
| "jsDiv x y = NaN"

fun jsLt :: "jsnum \<Rightarrow> jsnum \<Rightarrow> bool" where
  "jsLt (Num a) (Num b) = (a < b)"
| "jsLt NaN y = False"
| "jsLt x NaN = False"
| "jsLt x NegInfinity = False"
| "jsLt PosInfinity y = False"
| "jsLt x y = True"

fun jsLe :: "jsnum \<Rightarrow> jsnum \<Rightarrow> bool" where
  "jsLe (Num a) (Num b) = (a \<le> b)"
| "jsLe NaN y = False"
| "jsLe x NaN = False"
| "jsLe NegInfinity y = True"
| "jsLe x PosInfinity = True"
| "jsLe x y = False"

text \<open>\<^verbatim>\<open>Math.floor\<close>, \<^verbatim>\<open>Math.ceil\<close>, \<^verbatim>\<open>Math.min\<close> and \<^verbatim>\<open>Math.max\<close>; the floor and the ceiling of a double are doubles.\<close>

fun jsFloor :: "jsnum \<Rightarrow> jsnum" where
  "jsFloor (Num a) = Num (real_of_int \<lfloor>a\<rfloor>)"
| "jsFloor x = x"

fun jsCeil :: "jsnum \<Rightarrow> jsnum" where
  "jsCeil (Num a) = Num (real_of_int \<lceil>a\<rceil>)"
| "jsCeil x = x"

fun jsMin :: "jsnum \<Rightarrow> jsnum \<Rightarrow> jsnum" where
  "jsMin NaN y = NaN"
| "jsMin x NaN = NaN"
| "jsMin x y = (if jsLe x y then x else y)"

fun jsMax :: "jsnum \<Rightarrow> jsnum \<Rightarrow> jsnum" where
  "jsMax NaN y = NaN"
| "jsMax x NaN = NaN"
| "jsMax x y = (if jsLe x y then y else x)"

section \<open>The view transform and the grid in doubles\<close>

text \<open>
  The numeric globals the handlers and the grid read and write: the three numeric
  fields of \<^verbatim>\<open>config\<close> that change (lines 8-10), the viewport (lines 19-20) and
  the interaction state (lines 73-75). Event coordinates are numbers too.
\<close>

record plotD =
  scaleD :: jsnum
  offsetXD :: jsnum
  offsetYD :: jsnum
  widthD :: nat
  heightD :: nat
  centerXD :: jsnum
  centerYD :: jsnum
  isDraggingD :: bool
  lastMouseXD :: jsnum
  lastMouseYD :: jsnum

definition initial_plotD :: "nat \<Rightarrow> nat \<Rightarrow> plotD" where
  "initial_plotD w h =
     \<lparr> scaleD = Num 40, offsetXD = Num 0, offsetYD = Num 0, widthD = w, heightD = h,
       centerXD = jsDiv (Num (real w)) (Num 2), centerYD = jsDiv (Num (real h)) (Num 2),
       isDraggingD = False, lastMouseXD = Num 0, lastMouseYD = Num 0 \<rparr>"

text \<open>
  The handlers of lines 77-84, 91-120 and 122-162, operation by operation. The literals
  \<^verbatim>\<open>0.1\<close> and \<^verbatim>\<open>0.001\<close> are the doubles nearest to them.
\<close>

definition mousedownD :: "int \<Rightarrow> jsnum \<Rightarrow> jsnum \<Rightarrow> plotD \<Rightarrow> plotD" where
  "mousedownD button clientX clientY s =
     (if button = 0
      then s\<lparr> isDraggingD := True, lastMouseXD := clientX, lastMouseYD := clientY \<rparr>
      else s)"

definition mousemoveD :: "jsnum \<Rightarrow> jsnum \<Rightarrow> plotD \<Rightarrow> plotD" where
  "mousemoveD clientX clientY s =
     (if isDraggingD s then
        let dx = jsSub clientX (lastMouseXD s);
            dy = jsSub clientY (lastMouseYD s);
            s1 = s\<lparr> offsetXD := jsAdd (offsetXD s) (jsDiv dx (scaleD s)) \<rparr>;
            s2 = s1\<lparr> offsetYD := jsAdd (offsetYD s1) (jsDiv dy (scaleD s1)) \<rparr>
        in s2\<lparr> lastMouseXD := clientX, lastMouseYD := clientY \<rparr>
      else s)"




text \<open>
  \<^verbatim>\<open>calculateStep\<close>, lines 164-180. The language leaves the accuracy of
  \<^verbatim>\<open>Math.log10\<close> and \<^verbatim>\<open>Math.pow\<close> to the implementation, so the two
  functions are parameters.
\<close>

definition calculateStepD :: "(jsnum \<Rightarrow> jsnum) \<Rightarrow> (jsnum \<Rightarrow> jsnum \<Rightarrow> jsnum) \<Rightarrow> plotD \<Rightarrow> jsnum" where
  "calculateStepD log10 pow s =
     (let targetPixels = Num 80;
          stepUnits = jsDiv targetPixels (scaleD s);
          magnitude = pow (Num 10) (jsFloor (log10 stepUnits));
          residual = jsDiv stepUnits magnitude
      in if jsLt (Num 5) residual then jsMul (Num 10) magnitude
         else if jsLt (Num 2) residual then jsMul (Num 5) magnitude
         else if jsLt (Num 1) residual then jsMul (Num 2) magnitude
         else magnitude)"

text \<open>
  The tick loops of lines 216-230 and 236-248: the loop variable is a double and
  \<^verbatim>\<open>x += step\<close> is a rounded addition. The bodies only paint; they read the loop
  variable and write none of \<open>x\<close>, \<open>step\<close> and the bound, so they are parameters.
\<close>

partial_function (option) tickLoopD ::
    "(jsnum \<Rightarrow> cmd list) \<Rightarrow> jsnum \<Rightarrow> jsnum \<Rightarrow> jsnum \<Rightarrow> cmd list \<Rightarrow> cmd list option" where
  "tickLoopD body stp hi v acc =
     (if jsLe v hi then tickLoopD body stp hi (jsAdd v stp) (acc @ body v) else Some acc)"

text \<open>
  \<^verbatim>\<open>drawGrid\<close>, lines 182-278: the step, the visible range, the loop bounds and
  the two loops in sequence. \<open>before\<close> are the calls made before the first loop,
  \<open>after\<close> the calls made after the second (the stroke, the axes, the origin label).
\<close>

definition drawGridD ::
    "(jsnum \<Rightarrow> jsnum) \<Rightarrow> (jsnum \<Rightarrow> jsnum \<Rightarrow> jsnum) \<Rightarrow> (jsnum \<Rightarrow> cmd list) \<Rightarrow> (jsnum \<Rightarrow> cmd list)
       \<Rightarrow> cmd list \<Rightarrow> cmd list \<Rightarrow> plotD \<Rightarrow> cmd list option" where
  "drawGridD log10 pow xBody yBody before after s =
     (let w = Num (real (widthD s));
          h = Num (real (heightD s));
          stp = calculateStepD log10 pow s;
          startX = jsSub (jsDiv (jsNeg (centerXD s)) (scaleD s)) (offsetXD s);
          endX = jsSub (jsDiv (jsSub w (centerXD s)) (scaleD s)) (offsetXD s);
          startY = jsAdd (jsDiv (jsNeg (centerYD s)) (scaleD s)) (offsetYD s);
          endY = jsAdd (jsDiv (jsSub h (centerYD s)) (scaleD s)) (offsetYD s);
          minX = jsMul (jsFloor (jsDiv startX stp)) stp;
          maxX = jsMul (jsCeil (jsDiv endX stp)) stp;
          minY = jsMul (jsFloor (jsDiv (jsMin startY endY) stp)) stp;
          maxY = jsMul (jsCeil (jsDiv (jsMax startY endY) stp)) stp
      in case tickLoopD xBody stp maxX minX before of
           None \<Rightarrow> None
         | Some a1 \<Rightarrow>
             (case tickLoopD yBody stp maxY minY a1 of
                None \<Rightarrow> None
              | Some a2 \<Rightarrow> Some (a2 @ after)))"

section \<open>The view transform: zoom, pan and reset\<close>

lemma wheel_scale_range:
  "0.001 \<le> scale (cfg (wheel d cx cy l t s)) \<and> scale (cfg (wheel d cx cy l t s)) \<le> 100000"
  by (simp add: wheel_def Let_def)

lemma wheel_scale_pos: "0 < scale (cfg (wheel d cx cy l t s))"
proof -
  have "(0::real) < 0.001" by simp
  then show ?thesis using wheel_scale_range[of d cx cy l t s] by linarith
qed

lemma handle_scale_range:
  assumes "0.001 \<le> scale (cfg s) \<and> scale (cfg s) \<le> 100000"
  shows "0.001 \<le> scale (cfg (handle s ev)) \<and> scale (cfg (handle s ev)) \<le> 100000"
proof (cases ev)
  case (Wheel d x y l t)
  then show ?thesis using wheel_scale_range[of d x y l t s] by simp
qed (use assms in \<open>simp_all add: resize_def resetView_def mousedown_def mouseup_def
      mousemove_def Let_def\<close>)

lemma foldl_handle_scale_range:
  assumes "0.001 \<le> scale (cfg s) \<and> scale (cfg s) \<le> 100000"
  shows "0.001 \<le> scale (cfg (foldl handle s evs)) \<and> scale (cfg (foldl handle s evs)) \<le> 100000"
  using assms
proof (induction evs arbitrary: s)
  case Nil
  then show ?case by simp
next
  case (Cons e evs)
  show ?case using Cons.IH[OF handle_scale_range[OF Cons.prems]] by simp
qed

text \<open>
  Three identities of the formulas read over the reals; they are what the comments of
  lines 102-114 and 148-157 derive. The program computes in doubles, where none of them
  is exact; the last section bounds the error.

  The math point under the cursor before a wheel event is mapped to the cursor pixel
  again by the scale and offsets after it, also when the new scale is clamped.
\<close>

lemma zoom_anchor_exact_over_reals:
  assumes "0.001 \<le> scale (cfg s)" "scale (cfg s) \<le> 100000"
  shows "mathToScreen (wheel deltaY clientX clientY rectLeft rectTop s)
           (screenToMath s (clientX - rectLeft, clientY - rectTop))
         = (clientX - rectLeft, clientY - rectTop)"
proof -
  let ?s' = "wheel deltaY clientX clientY rectLeft rectTop s"
  let ?mx = "clientX - rectLeft"
  let ?my = "clientY - rectTop"
  have pos: "scale (cfg ?s') > 0" by (rule wheel_scale_pos)
  have c: "centerX ?s' = centerX s" "centerY ?s' = centerY s"
    by (simp_all add: wheel_def Let_def)
  have ox: "offsetX (cfg ?s') =
      (?mx - centerX s) / scale (cfg ?s') - fst (screenToMath s (?mx, ?my))"
    by (simp add: wheel_def Let_def screenToMath_def)
  have oy: "offsetY (cfg ?s') =
      snd (screenToMath s (?mx, ?my)) - (centerY s - ?my) / scale (cfg ?s')"
    by (simp add: wheel_def Let_def screenToMath_def)
  show ?thesis
    using pos unfolding mathToScreen_def c ox oy by (simp add: field_simps)
qed

text \<open>Taking a math point to the screen and back gives the point again.\<close>

lemma round_trip_exact_over_reals:
  assumes "0 < scale (cfg s)"
  shows "screenToMath s (mathToScreen s (x, y)) = (x, y)"
  using assms by (simp add: screenToMath_def mathToScreen_def)

text \<open>
  While dragging, a mouse move by \<open>(dx, dy)\<close> pixels moves the screen position of every
  math point by \<open>(dx, dy)\<close>.
\<close>

lemma pan_exact_over_reals:
  assumes "0 < scale (cfg s)" "isDragging s"
  shows "mathToScreen (mousemove clientX clientY s) (x, y) =
     (fst (mathToScreen s (x, y)) + (clientX - lastMouseX s),
      snd (mathToScreen s (x, y)) + (clientY - lastMouseY s))"
  using assms by (simp add: mathToScreen_def mousemove_def Let_def field_simps)

text \<open>
  Claim C4 (scale clamp). Starting from the default state, after any sequence of events
  (pans, wheel zooms in either direction, resets, and the other events of the page) the
  scale lies in \<open>[0.001, 100000]\<close>.
\<close>

theorem scale_clamp_invariant:
  "0.001 \<le> scale (cfg (run (initial_plot w h) evs)) \<and>
   scale (cfg (run (initial_plot w h) evs)) \<le> 100000"
proof -
  have "0.001 \<le> scale (cfg (initial_plot w h)) \<and> scale (cfg (initial_plot w h)) \<le> 100000"
    by (simp add: initial_plot_def initial_config_def)
  then show ?thesis unfolding run_def by (rule foldl_handle_scale_range)
qed

text \<open>
  Claim C9 (frame condition of the pan). A mouse move changes, of the configuration, at
  most \<open>offsetX\<close> and \<open>offsetY\<close>: the scale and every other field of \<open>config\<close> are
  as before, and so are the viewport and the expression. (The handler also records the
  mouse position, which is interaction state and not part of the configuration.)
\<close>

theorem pan_frame_condition:
  "cfg (mousemove clientX clientY s) =
     (cfg s)\<lparr> offsetX := offsetX (cfg (mousemove clientX clientY s)),
              offsetY := offsetY (cfg (mousemove clientX clientY s)) \<rparr> \<and>
   scale (cfg (mousemove clientX clientY s)) = scale (cfg s) \<and>
   step (cfg (mousemove clientX clientY s)) = step (cfg s) \<and>
   axisColor (cfg (mousemove clientX clientY s)) = axisColor (cfg s) \<and>
   gridColor (cfg (mousemove clientX clientY s)) = gridColor (cfg s) \<and>
   lineColor (cfg (mousemove clientX clientY s)) = lineColor (cfg s) \<and>
   lineWidth (cfg (mousemove clientX clientY s)) = lineWidth (cfg s) \<and>
   width (mousemove clientX clientY s) = width s \<and>
   height (mousemove clientX clientY s) = height s \<and>
   centerX (mousemove clientX clientY s) = centerX s \<and>
   centerY (mousemove clientX clientY s) = centerY s \<and>
   inputValue (mousemove clientX clientY s) = inputValue s \<and>
   isDragging (mousemove clientX clientY s) = isDragging s"
  by (simp add: mousemove_def Let_def)

section \<open>The grid step\<close>

lemma floor_log_scaled:
  fixes a :: real
  assumes "1 \<le> a" "a < 10"
  shows "\<lfloor>log 10 (a * 10 powr real_of_int k)\<rfloor> = k"
proof -
  have "log 10 (a * 10 powr real_of_int k) = log 10 a + real_of_int k"
    using assms by (simp add: log_mult log_powr)
  moreover have "0 \<le> log 10 a" using assms by simp
  moreover have "log 10 a < 1" using assms by simp
  ultimately show ?thesis by (simp add: floor_eq_iff)
qed

lemma floor_log_ten: "\<lfloor>log 10 (10 * 10 powr real_of_int k)\<rfloor> = k + 1"
proof -
  have "log 10 (10 * 10 powr real_of_int k) = 1 + real_of_int k"
    by (simp add: log_mult log_powr)
  then show ?thesis by simp
qed

lemma calculateStep_pos: "0 < calculateStep c"
  by (simp add: calculateStep_def Let_def)

lemma calculateStep_bounds:
  shows "10 powr real_of_int \<lfloor>log 10 (80 / scale c)\<rfloor> \<le> calculateStep c"
    and "calculateStep c \<le> 10 * 10 powr real_of_int \<lfloor>log 10 (80 / scale c)\<rfloor>"
  by (simp_all add: calculateStep_def Let_def)

lemma calculateStep_choice:
  "calculateStep c \<in> (\<lambda>m. m * 10 powr real_of_int \<lfloor>log 10 (80 / scale c)\<rfloor>) ` {1, 2, 5, 10}"
  by (simp add: calculateStep_def Let_def)

lemma calculateStep_mantissa:
  "calculateStep c / 10 powr real_of_int \<lfloor>log 10 (calculateStep c)\<rfloor> \<in> {1, 2, 5}"
proof -
  define k where "k = \<lfloor>log 10 (80 / scale c)\<rfloor>"
  have e1: "\<lfloor>log 10 (10 powr real_of_int k)\<rfloor> = k" using floor_log_scaled[of 1 k] by simp
  have e2: "\<lfloor>log 10 (2 * 10 powr real_of_int k)\<rfloor> = k" using floor_log_scaled[of 2 k] by simp
  have e5: "\<lfloor>log 10 (5 * 10 powr real_of_int k)\<rfloor> = k" using floor_log_scaled[of 5 k] by simp
  have e10: "\<lfloor>log 10 (10 * 10 powr real_of_int k)\<rfloor> = k + 1" by (rule floor_log_ten)
  have p: "10 powr (real_of_int k + 1) = 10 * 10 powr real_of_int k" by (simp add: powr_add)
  show ?thesis
    unfolding calculateStep_def Let_def k_def[symmetric]
    by (simp add: e1 e2 e5 e10 p)
qed

lemma nice_choice_mono:
  fixes m r1 r2 :: real
  assumes "0 < m" "r1 \<le> r2"
  shows "(if r1 > 5 then 10 * m else if r1 > 2 then 5 * m else if r1 > 1 then 2 * m else m)
       \<le> (if r2 > 5 then 10 * m else if r2 > 2 then 5 * m else if r2 > 1 then 2 * m else m)"
  using assms by auto

lemma calculateStep_mono:
  assumes "0 < scale c2" "scale c2 < scale c1"
  shows "calculateStep c1 \<le> calculateStep c2"
proof -
  define u1 where "u1 = 80 / scale c1"
  define u2 where "u2 = 80 / scale c2"
  define k1 where "k1 = \<lfloor>log 10 u1\<rfloor>"
  define k2 where "k2 = \<lfloor>log 10 u2\<rfloor>"
  have pos: "0 < u1" "0 < u2" using assms by (simp_all add: u1_def u2_def)
  have le: "u1 \<le> u2" using assms by (simp add: u1_def u2_def frac_le)
  have "log 10 u1 \<le> log 10 u2" using pos le by simp
  then have k: "k1 \<le> k2" unfolding k1_def k2_def by (rule floor_mono)
  show ?thesis
  proof (cases "k1 = k2")
    case True
    have m: "0 < 10 powr real_of_int k2" by simp
    have "u1 / 10 powr real_of_int k2 \<le> u2 / 10 powr real_of_int k2"
      using le m by (simp add: divide_right_mono)
    then show ?thesis
      unfolding calculateStep_def Let_def u1_def[symmetric] u2_def[symmetric]
        k1_def[symmetric] k2_def[symmetric] True
      by (rule nice_choice_mono[OF m])
  next
    case False
    with k have "k1 + 1 \<le> k2" by simp
    then have "real_of_int k1 + 1 \<le> real_of_int k2" by linarith
    then have "10 powr (real_of_int k1 + 1) \<le> 10 powr real_of_int k2"
      by (simp only: powr_le_cancel_iff)
    then have "10 * 10 powr real_of_int k1 \<le> 10 powr real_of_int k2"
      by (simp add: powr_add)
    moreover have "calculateStep c1 \<le> 10 * 10 powr real_of_int k1"
      using calculateStep_bounds(2)[of c1] by (simp add: k1_def u1_def)
    moreover have "10 powr real_of_int k2 \<le> calculateStep c2"
      using calculateStep_bounds(1)[of c2] by (simp add: k2_def u2_def)
    ultimately show ?thesis by linarith
  qed
qed

lemma calculateStep_initial: "calculateStep initial_config = 2"
proof -
  have "\<lfloor>log 10 (2::real)\<rfloor> = 0" using floor_log_scaled[of 2 0] by simp
  then show ?thesis by (simp add: calculateStep_def initial_config_def Let_def)
qed

text \<open>
  Claim C6 (nice-number set). For a scale in \<open>[0.001, 100000]\<close> the mantissa of the
  step, \<open>step / 10 ^ \<lfloor>log10 step\<rfloor>\<close>, is one of 1, 2, 5, 10, and the step is 1, 2, 5
  or 10 times a power of ten.
\<close>

theorem nice_number_set:
  assumes "0.001 \<le> scale c" "scale c \<le> 100000"
  shows "calculateStep c / 10 powr real_of_int \<lfloor>log 10 (calculateStep c)\<rfloor> \<in> {1, 2, 5, 10} \<and>
         (\<exists>k::int. \<exists>m::real. m \<in> {1, 2, 5, 10} \<and> calculateStep c = m * 10 powr real_of_int k)"
proof
  show "calculateStep c / 10 powr real_of_int \<lfloor>log 10 (calculateStep c)\<rfloor> \<in> {1, 2, 5, 10}"
    using calculateStep_mantissa[of c] by auto
  show "\<exists>k::int. \<exists>m::real. m \<in> {1, 2, 5, 10} \<and> calculateStep c = m * 10 powr real_of_int k"
    using calculateStep_choice[of c] by blast
qed

theorem nice_number_set_witness:
  "calculateStep initial_config = 2 \<and>
   calculateStep initial_config / 10 powr real_of_int \<lfloor>log 10 (calculateStep initial_config)\<rfloor>
     \<in> {1, 2, 5, 10}"
proof -
  have h: "0.001 \<le> scale initial_config" "scale initial_config \<le> 100000"
    by (simp_all add: initial_config_def)
  show ?thesis using nice_number_set[OF h] calculateStep_initial by blast
qed

text \<open>
  Claim C7 (grid-step monotonicity). For two scales \<open>s1 > s2\<close> in \<open>[0.001, 100000]\<close> the
  step at the smaller scale is at least the step at the larger one.
\<close>

theorem grid_step_monotone:
  assumes "0.001 \<le> scale c2" "scale c2 < scale c1" "scale c1 \<le> 100000"
  shows "calculateStep c1 \<le> calculateStep c2"
proof -
  have "(0::real) < 0.001" by simp
  then have "0 < scale c2" using assms(1) by linarith
  then show ?thesis using assms(2) by (rule calculateStep_mono)
qed

theorem grid_step_monotone_witness:
  "calculateStep initial_config \<le> calculateStep (initial_config\<lparr>scale := 10\<rparr>)"
proof -
  have "0.001 \<le> scale (initial_config\<lparr>scale := 10\<rparr>)"
    "scale (initial_config\<lparr>scale := 10\<rparr>) < scale initial_config"
    "scale initial_config \<le> 100000"
    by (simp_all add: initial_config_def)
  then show ?thesis by (rule grid_step_monotone)
qed

section \<open>The tick loops\<close>

lemma tickLoop_terminates:
  assumes "0 < stp"
  shows "\<exists>r. tickLoop body stp hi v acc = Some r"
proof (induction "nat \<lceil>(hi - v) / stp + 1\<rceil>" arbitrary: v acc rule: less_induct)
  case less
  show ?case
  proof (cases "v \<le> hi")
    case False
    then show ?thesis by (subst tickLoop.simps) simp
  next
    case True
    have eq: "(hi - (v + stp)) / stp + 1 = (hi - v) / stp"
      using assms by (simp add: field_simps)
    have "0 \<le> (hi - v) / stp" using True assms by simp
    then have "nat \<lceil>(hi - (v + stp)) / stp + 1\<rceil> < nat \<lceil>(hi - v) / stp + 1\<rceil>"
      unfolding eq by linarith
    from less[OF this] obtain r where "tickLoop body stp hi (v + stp) (acc @ body v) = Some r"
      by blast
    then show ?thesis using True by (subst tickLoop.simps) simp
  qed
qed

text \<open>The hypothesis on the step is needed: with a step of zero the loop never ends.\<close>

lemma tickLoop_stuck:
  assumes "tickLoop body stp hi v acc = Some r"
  shows "stp \<noteq> 0 \<or> hi < v"
proof (rule tickLoop.raw_induct[where P = "\<lambda>b s h w a y. s \<noteq> 0 \<or> h < w", OF _ assms])
  fix tl and body :: "real \<Rightarrow> cmd list" and stp hi v :: real and acc r :: "cmd list"
  assume IH: "\<And>b s h w a y. tl b s h w a = Some y \<Longrightarrow> s \<noteq> 0 \<or> h < w"
    and unfolded: "(if v \<le> hi then tl body stp hi (v + stp) (acc @ body v) else Some acc) = Some r"
  show "stp \<noteq> 0 \<or> hi < v"
  proof (rule ccontr)
    assume "\<not> (stp \<noteq> 0 \<or> hi < v)"
    then have a: "stp = 0" "v \<le> hi" by simp_all
    with unfolded have b: "tl body stp hi (v + stp) (acc @ body v) = Some r" by simp
    have "stp \<noteq> 0 \<or> hi < v + stp" using b by (rule IH)
    with a show False by simp
  qed
qed

lemma tickLoop_zero_step: "v \<le> hi \<Longrightarrow> tickLoop body 0 hi v acc = None"
  using tickLoop_stuck[of body 0 hi v acc] by (cases "tickLoop body 0 hi v acc") auto

lemma drawGrid_terminates: "\<exists>cmds. drawGrid fix s = Some cmds"
proof -
  have p: "0 < calculateStep (cfg s)" by (rule calculateStep_pos)
  show ?thesis
    unfolding drawGrid_def Let_def
    using tickLoop_terminates[OF p]
    by (metis option.simps(5))
qed

text \<open>
  Over the reals, then, the step is strictly positive, each tick loop run with that step
  ends from any start, bound and body, and \<^verbatim>\<open>drawGrid\<close> returns. The loops of the
  program add the step in doubles; they are taken up again in the last section.
\<close>

lemma tick_loops_end_over_reals:
  "0 < calculateStep (cfg s) \<and>
   (\<exists>r. tickLoop body (calculateStep (cfg s)) hi lo acc = Some r) \<and>
   (\<exists>cmds. drawGrid fix s = Some cmds)"
  using calculateStep_pos[of "cfg s"] tickLoop_terminates[OF calculateStep_pos]
    drawGrid_terminates by blast

section \<open>The evaluator and the curve\<close>

lemma evaluateFunction_returns: "\<exists>v. evaluateFunction nf e x = Inr v"
  by (simp add: evaluateFunction_def split: sum.splits)

lemma evaluateFunction_syntax_error: "nf e = Inl err \<Longrightarrow> evaluateFunction nf e x = Inr NaN"
  by (simp add: evaluateFunction_def)

lemma evaluateFunction_runtime_error:
  "nf e = Inr f \<Longrightarrow> f x = Inl err \<Longrightarrow> evaluateFunction nf e x = Inr NaN"
  by (simp add: evaluateFunction_def)

lemma sampleColumn_failure:
  assumes "(\<exists>err. nf e = Inl err) \<or> (\<exists>f err. nf e = Inr f \<and> f (columnX s (real i)) = Inl err)"
  shows "sampleColumn nf s e i = NaN"
  using assms by (auto simp: sampleColumn_def evaluateFunction_def)

lemma curveLoop_skip:
  "\<not> isFinite (sampleColumn nf s e i) \<Longrightarrow> curveLoop nf s e (i # cols) fp = curveLoop nf s e cols True"
  by (cases "sampleColumn nf s e i") (simp_all add: Let_def)

lemma curveLoop_point:
  "sampleColumn nf s e i = Num yv \<Longrightarrow>
   curveLoop nf s e (i # cols) fp =
     (if fp then MoveTo (real i) (centerY s - (yv - offsetY (cfg s)) * scale (cfg s))
      else LineTo (real i) (centerY s - (yv - offsetY (cfg s)) * scale (cfg s)))
     # curveLoop nf s e cols False"
  by (simp add: Let_def)

lemma isFinite_Num: "isFinite y \<Longrightarrow> \<exists>yv. y = Num yv"
  by (cases y) simp_all

lemma map_filter_app:
  "List.map_filter f (xs @ ys) = List.map_filter f xs @ List.map_filter f ys"
  by (simp add: List.map_filter_def)

lemma lineTo_points:
  "\<forall>c \<in> set cs. isLineTo c \<Longrightarrow> List.map_filter pointOf cs = map (the \<circ> pointOf) cs"
proof (induction cs)
  case Nil show ?case by simp
next
  case (Cons c cs)
  then show ?case by (cases c) simp_all
qed

lemma points_subpaths: "concat (subpaths cs) = List.map_filter pointOf cs"
proof (induction cs rule: subpaths.induct)
  case 1 show ?case by simp
next
  case (2 c cs)
  have "\<forall>x \<in> set (takeWhile isLineTo cs). isLineTo x" by (auto dest: set_takeWhileD)
  then have tw: "map (the \<circ> pointOf) (takeWhile isLineTo cs) = List.map_filter pointOf (takeWhile isLineTo cs)"
    by (simp add: lineTo_points)
  have app: "List.map_filter pointOf cs =
      List.map_filter pointOf (takeWhile isLineTo cs) @ List.map_filter pointOf (dropWhile isLineTo cs)"
    using map_filter_app[of pointOf "takeWhile isLineTo cs" "dropWhile isLineTo cs"] by simp
  show ?case
  proof (cases "pointOf c")
    case None
    with 2 show ?thesis by simp
  next
    case (Some p)
    with 2 show ?thesis by (simp add: tw app del: o_apply)
  qed
qed

lemma moveTo_dropWhile:
  "filter isMoveTo (dropWhile isLineTo cs) = filter isMoveTo cs"
proof (induction cs)
  case Nil show ?case by simp
next
  case (Cons c cs) then show ?case by (cases c) simp_all
qed

lemma subpaths_count: "length (filter isMoveTo cs) \<le> length (subpaths cs)"
proof (induction cs rule: subpaths.induct)
  case 1 show ?case by simp
next
  case (2 c cs)
  show ?case
  proof (cases "pointOf c")
    case None
    then have "\<not> isMoveTo c" by (cases c) simp_all
    with 2 None show ?thesis by simp
  next
    case (Some p)
    have "length (filter isMoveTo (c # cs)) \<le> Suc (length (filter isMoveTo cs))" by simp
    also have "\<dots> = Suc (length (filter isMoveTo (dropWhile isLineTo cs)))"
      by (simp add: moveTo_dropWhile)
    also have "\<dots> \<le> Suc (length (subpaths (dropWhile isLineTo cs)))"
      using 2(2)[OF Some] by simp
    finally show ?thesis using Some by simp
  qed
qed

lemma curveLoop_points:
  "List.map_filter pointOf (curveLoop nf s e cols fp) =
     map (\<lambda>i. (real i, centerY s - ((case sampleColumn nf s e i of Num yv \<Rightarrow> yv | _ \<Rightarrow> 0) - offsetY (cfg s)) * scale (cfg s)))
       (filter (\<lambda>i. isFinite (sampleColumn nf s e i)) cols)"
proof (induction cols arbitrary: fp)
  case Nil show ?case by simp
next
  case (Cons i cols)
  show ?case
  proof (cases "sampleColumn nf s e i")
    case (Num yv)
    then show ?thesis using Cons[of False] by (simp add: Let_def)
  qed (use Cons[of True] in \<open>simp_all add: Let_def\<close>)
qed

lemma curveLoop_columns:
  "map fst (List.map_filter pointOf (curveLoop nf s e cols fp)) =
     map real (filter (\<lambda>i. isFinite (sampleColumn nf s e i)) cols)"
  by (simp add: curveLoop_points o_def)

lemma curveLoop_break:
  assumes "\<not> isFinite (sampleColumn nf s e i)"
  shows "curveLoop nf s e (xs @ i # ys) fp = curveLoop nf s e xs fp @ curveLoop nf s e ys True"
proof (induction xs arbitrary: fp)
  case Nil show ?case using assms by (simp add: curveLoop_skip)
next
  case (Cons x xs)
  show ?case
  proof (cases "sampleColumn nf s e x")
    case (Num yv)
    then show ?thesis using Cons[of False] by (simp add: Let_def)
  qed (use Cons[of True] in \<open>simp_all add: Let_def\<close>)
qed

lemma curveLoop_opens:
  assumes "j \<in> set cols" "isFinite (sampleColumn nf s e j)"
  shows "1 \<le> length (filter isMoveTo (curveLoop nf s e cols True))"
  using assms
proof (induction cols)
  case Nil then show ?case by simp
next
  case (Cons x cols)
  show ?case
  proof (cases "sampleColumn nf s e x")
    case (Num yv)
    then show ?thesis by (simp add: Let_def)
  next
    case NaN
    then have "j \<noteq> x" using Cons.prems by auto
    then show ?thesis using Cons NaN by (simp add: Let_def)
  next
    case PosInfinity
    then have "j \<noteq> x" using Cons.prems by auto
    then show ?thesis using Cons PosInfinity by (simp add: Let_def)
  next
    case NegInfinity
    then have "j \<noteq> x" using Cons.prems by auto
    then show ?thesis using Cons NegInfinity by (simp add: Let_def)
  qed
qed

lemma curveLoop_two_runs:
  assumes "j < i" "i < k" "k \<le> w"
    and "isFinite (sampleColumn nf s e j)" "\<not> isFinite (sampleColumn nf s e i)"
    and "isFinite (sampleColumn nf s e k)"
  shows "2 \<le> length (filter isMoveTo (curveLoop nf s e [0..<Suc w] True))"
proof -
  have "[0..<Suc w] = [0..<i] @ i # [Suc i..<Suc w]"
    using assms(2,3) by (metis le_imp_less_Suc less_trans upt_conv_Cons upt_add_eq_append zero_le le_add_diff_inverse less_imp_le_nat)
  then have "curveLoop nf s e [0..<Suc w] True =
      curveLoop nf s e [0..<i] True @ curveLoop nf s e [Suc i..<Suc w] True"
    using curveLoop_break[OF assms(5)] by simp
  moreover have "1 \<le> length (filter isMoveTo (curveLoop nf s e [0..<i] True))"
  proof -
    have "j \<in> set [0..<i]" using assms(1) by simp
    then show ?thesis using assms(4) by (rule curveLoop_opens)
  qed
  moreover have "1 \<le> length (filter isMoveTo (curveLoop nf s e [Suc i..<Suc w] True))"
  proof -
    have "k \<in> set [Suc i..<Suc w]" using assms(2,3) by auto
    then show ?thesis using assms(6) by (rule curveLoop_opens)
  qed
  ultimately show ?thesis by simp
qed

lemma sampleColumn_finite_iff:
  "isFinite (sampleColumn nf s e i) = (\<exists>v. evaluateFunction nf e (columnX s (real i)) = Inr (Num v))"
proof (cases "evaluateFunction nf e (columnX s (real i))")
  case (Inl err) then show ?thesis by (simp add: sampleColumn_def)
next
  case (Inr v) then show ?thesis by (cases v) (simp_all add: sampleColumn_def)
qed

lemma drawCurve_subpaths:
  assumes "inputValue s \<noteq> []"
  shows "subpaths (drawCurve nf s) = subpaths (curveLoop nf s (inputValue s) [0..<Suc (width s)] True @ [Stroke])"
  using assms by (simp add: drawCurve_def Let_def del: upt_Suc)

lemma drawCurve_points:
  assumes "inputValue s \<noteq> []"
  shows "map fst (concat (subpaths (drawCurve nf s))) =
         map real (filter (\<lambda>i. isFinite (sampleColumn nf s (inputValue s) i)) [0..<Suc (width s)])"
proof -
  have "concat (subpaths (drawCurve nf s)) =
        List.map_filter pointOf (curveLoop nf s (inputValue s) [0..<Suc (width s)] True)"
    unfolding drawCurve_subpaths[OF assms] points_subpaths map_filter_app by simp
  then show ?thesis by (simp only: curveLoop_columns)
qed

lemma drawCurve_moves:
  assumes "inputValue s \<noteq> []"
  shows "length (filter isMoveTo (curveLoop nf s (inputValue s) [0..<Suc (width s)] True))
         \<le> length (subpaths (drawCurve nf s))"
proof -
  have "filter isMoveTo (curveLoop nf s (inputValue s) [0..<Suc (width s)] True @ [Stroke]) =
        filter isMoveTo (curveLoop nf s (inputValue s) [0..<Suc (width s)] True)" by simp
  then show ?thesis
    unfolding drawCurve_subpaths[OF assms]
    using subpaths_count[of "curveLoop nf s (inputValue s) [0..<Suc (width s)] True @ [Stroke]"]
    by simp
qed

text \<open>The sampler's column and row formulas are the two transforms.\<close>

lemma columnX_screenToMath: "columnX s px = fst (screenToMath s (px, py))"
  by (simp add: columnX_def screenToMath_def)

lemma curveLoop_row:
  "centerY s - (yv - offsetY (cfg s)) * scale (cfg s) = snd (mathToScreen s (x, yv))"
  by (simp add: mathToScreen_def)

lemma columnX_less:
  assumes "0 < scale (cfg s)" "columnX s (real j) < columnX s (real i)"
  shows "j < i"
proof (rule ccontr)
  assume "\<not> j < i"
  then have "real i \<le> real j" by simp
  then have "(real i - centerX s) / scale (cfg s) \<le> (real j - centerX s) / scale (cfg s)"
    using assms(1) by (simp add: divide_right_mono)
  then show False using assms(2) by (simp add: columnX_def)
qed

text \<open>
  Claim C5 (discontinuity handling). Let a non-empty expression evaluate to a finite
  number exactly outside the open interval \<open>(a, b)\<close>, and let the visible columns
  contain a column \<open>i\<close> strictly inside the interval, a column \<open>j\<close> at or left of
  \<open>a\<close> and a column \<open>k\<close> at or right of \<open>b\<close>, with a positive scale. Then the
  curve has at least two path segments, no point belongs to two of them (all painted
  points are distinct), and no painted point has its math x strictly inside \<open>(a, b)\<close>.
\<close>

theorem discontinuity_handling:
  assumes expr: "inputValue s \<noteq> []"
    and pos: "0 < scale (cfg s)"
    and undef: "\<forall>x. (\<exists>v. evaluateFunction nf (inputValue s) x = Inr (Num v)) = (\<not> (a < x \<and> x < b))"
    and cols: "j \<le> width s" "i \<le> width s" "k \<le> width s"
    and left: "columnX s (real j) \<le> a"
    and inside: "a < columnX s (real i)" "columnX s (real i) < b"
    and right: "b \<le> columnX s (real k)"
  shows "2 \<le> length (subpaths (drawCurve nf s)) \<and>
         distinct (concat (subpaths (drawCurve nf s))) \<and>
         (\<forall>p \<in> set (concat (subpaths (drawCurve nf s))).
            \<not> (a < columnX s (fst p) \<and> columnX s (fst p) < b))"
proof -
  let ?e = "inputValue s"
  let ?fin = "\<lambda>c. isFinite (sampleColumn nf s ?e c)"
  have fin: "?fin c = (\<not> (a < columnX s (real c) \<and> columnX s (real c) < b))" for c
    using undef by (simp add: sampleColumn_finite_iff)
  have ji: "j < i" using left inside(1) by (intro columnX_less[OF pos]) linarith
  have ik: "i < k" using right inside(2) by (intro columnX_less[OF pos]) linarith
  have "?fin j" using left by (simp add: fin)
  moreover have "\<not> ?fin i" using inside by (simp add: fin)
  moreover have "?fin k" using right by (simp add: fin)
  ultimately have "2 \<le> length (filter isMoveTo (curveLoop nf s ?e [0..<Suc (width s)] True))"
    using ji ik cols(3) by (intro curveLoop_two_runs[of j i k]) 
  then have two: "2 \<le> length (subpaths (drawCurve nf s))"
    using drawCurve_moves[OF expr, of nf] by linarith
  have pts: "map fst (concat (subpaths (drawCurve nf s))) =
             map real (filter ?fin [0..<Suc (width s)])"
    by (rule drawCurve_points[OF expr])
  have "distinct (map real (filter ?fin [0..<Suc (width s)]))"
    by (simp add: distinct_map inj_on_def del: upt_Suc)
  then have "distinct (map fst (concat (subpaths (drawCurve nf s))))" by (simp only: pts)
  then have dist: "distinct (concat (subpaths (drawCurve nf s)))" by (simp add: distinct_map)
  have out: "\<not> (a < columnX s (fst p) \<and> columnX s (fst p) < b)"
    if "p \<in> set (concat (subpaths (drawCurve nf s)))" for p
  proof -
    from that have "fst p \<in> set (map fst (concat (subpaths (drawCurve nf s))))" by simp
    then have "fst p \<in> set (map real (filter ?fin [0..<Suc (width s)]))" by (simp only: pts)
    then obtain c where "fst p = real c" "?fin c" by (auto simp del: upt_Suc)
    then show ?thesis by (simp add: fin)
  qed
  show ?thesis using two dist out by blast
qed

theorem discontinuity_handling_witness:
  "2 \<le> length (subpaths (drawCurve gap_engine ((initial_plot 160 100)\<lparr>inputValue := ''sqrt(x*x-1)''\<rparr>))) \<and>
   distinct (concat (subpaths (drawCurve gap_engine ((initial_plot 160 100)\<lparr>inputValue := ''sqrt(x*x-1)''\<rparr>))))"
proof -
  let ?s = "(initial_plot 160 100)\<lparr>inputValue := ''sqrt(x*x-1)''\<rparr>"
  have h1: "inputValue ?s \<noteq> []" by simp
  have h2: "0 < scale (cfg ?s)" by (simp add: initial_plot_def initial_config_def)
  have h3: "\<forall>x. (\<exists>v. evaluateFunction gap_engine (inputValue ?s) x = Inr (Num v)) = (\<not> (- 1 < x \<and> x < 1))"
    by (simp add: evaluateFunction_def gap_engine_def)
  have w: "40 \<le> width ?s" "80 \<le> width ?s" "120 \<le> width ?s" by (simp_all add: initial_plot_def)
  have x1: "columnX ?s (real 40) \<le> - 1"
    by (simp add: columnX_def initial_plot_def initial_config_def)
  have x2: "- 1 < columnX ?s (real 80)" "columnX ?s (real 80) < 1"
    by (simp_all add: columnX_def initial_plot_def initial_config_def)
  have x3: "1 \<le> columnX ?s (real 120)"
    by (simp add: columnX_def initial_plot_def initial_config_def)
  show ?thesis
    using discontinuity_handling[OF h1 h2 h3 w x1 x2 x3] by blast
qed

section \<open>Samples that are not numbers\<close>

text \<open>On number-valued engines the second sampler is the first.\<close>

lemma evaluateFunctionV_returns: "\<exists>v. evaluateFunctionV nf e x = Inr v"
  by (simp add: evaluateFunctionV_def split: sum.splits)

lemma evaluateFunctionV_number:
  "evaluateFunctionV (numberEngine nf) e x =
     (case evaluateFunction nf e x of Inl err \<Rightarrow> Inl err | Inr n \<Rightarrow> Inr (JNumber n))"
  by (simp add: evaluateFunctionV_def evaluateFunction_def numberEngine_def split: sum.splits)

lemma sampleColumnV_number:
  "sampleColumnV (numberEngine nf) s e i = JNumber (sampleColumn nf s e i)"
  by (simp add: sampleColumnV_def sampleColumn_def evaluateFunctionV_number Let_def split: sum.splits)

lemma curveLoopV_number:
  "curveLoopV (numberEngine nf) s e cols fp = Inr (curveLoop nf s e cols fp)"
proof (induction cols arbitrary: fp)
  case Nil
  show ?case by simp
next
  case (Cons i cols)
  show ?case
    by (cases "sampleColumn nf s e i") (simp_all add: sampleColumnV_number Let_def Cons)
qed

lemma drawCurveV_number: "drawCurveV (numberEngine nf) s = Inr (drawCurve nf s)"
  by (simp add: drawCurveV_def drawCurve_def Let_def curveLoopV_number del: upt_Suc)

text \<open>
  Claim C3 (evaluation-error resilience): the code does not keep it. The evaluator
  itself never throws (lemma \<open>evaluateFunctionV_returns\<close>), but a sample need not
  fail to end the curve. For the expression \<^verbatim>\<open>x == 0 ? 1n : 1\<close>, on a viewport of
  width 2 at the default transform, the evaluator returns the BigInt at the middle
  column without throwing, the samples of the two other columns are the finite number
  1, and \<^verbatim>\<open>drawCurve\<close> ends with a \<^verbatim>\<open>TypeError\<close> thrown by the test of line
  304, before \<^verbatim>\<open>stroke()\<close>: nothing of the curve is painted.
\<close>

theorem bigint_sample_aborts_curve:
  "evaluateFunctionV bigint_engine ''x == 0 ? 1n : 1''
      (columnX ((initial_plot 2 2)\<lparr>inputValue := ''x == 0 ? 1n : 1''\<rparr>) 1) = Inr (JBigInt 1) \<and>
   sampleColumnV bigint_engine ((initial_plot 2 2)\<lparr>inputValue := ''x == 0 ? 1n : 1''\<rparr>)
      ''x == 0 ? 1n : 1'' 0 = JNumber (Num 1) \<and>
   sampleColumnV bigint_engine ((initial_plot 2 2)\<lparr>inputValue := ''x == 0 ? 1n : 1''\<rparr>)
      ''x == 0 ? 1n : 1'' 2 = JNumber (Num 1) \<and>
   drawCurveV bigint_engine ((initial_plot 2 2)\<lparr>inputValue := ''x == 0 ? 1n : 1''\<rparr>) = Inl TypeError"
  by (simp add: drawCurveV_def sampleColumnV_def evaluateFunctionV_def bigint_engine_def columnX_def
      initial_plot_def initial_config_def Let_def upt_rec numeral_2_eq_2)


section \<open>The transforms and the grid loop in doubles\<close>


lemma roundEven_near:
  assumes "\<bar>y - real_of_int m\<bar> < 1 / 2"
  shows "roundEven y = m"
proof (cases "real_of_int m \<le> y")
  case True
  then have f: "\<lfloor>y\<rfloor> = m" using assms by (simp add: floor_eq_iff; linarith)
  then show ?thesis using assms True by (simp add: roundEven_def Let_def)
next
  case False
  then have f: "\<lfloor>y\<rfloor> = m - 1" using assms by (simp add: floor_eq_iff; linarith)
  have "1 / 2 < y - real_of_int (m - 1)" using assms False by (simp; linarith)
  then show ?thesis using f by (simp add: roundEven_def Let_def)
qed

lemma roundEven_error: "\<bar>real_of_int (roundEven y) - y\<bar> \<le> 1 / 2"
proof -
  have "real_of_int \<lfloor>y\<rfloor> \<le> y" "y < real_of_int \<lfloor>y\<rfloor> + 1" by linarith+
  then show ?thesis by (auto simp: roundEven_def Let_def)
qed

lemma floor_log2_binade:
  assumes "2 powr real_of_int e \<le> \<bar>x\<bar>" "\<bar>x\<bar> < 2 powr real_of_int (e + 1)"
  shows "\<lfloor>log 2 \<bar>x\<bar>\<rfloor> = e"
proof -
  have pos: "0 < \<bar>x\<bar>" using assms(1) by (smt (verit) powr_gt_zero)
  have "real_of_int e \<le> log 2 \<bar>x\<bar>" using assms(1) pos by (simp add: le_log_iff)
  moreover have "log 2 \<bar>x\<bar> < real_of_int (e + 1)" using assms(2) pos by (simp add: log_less_iff)
  ultimately show ?thesis by (simp add: floor_eq_iff)
qed

lemma toDouble_binade:
  assumes "2 powr real_of_int (52 + k) \<le> \<bar>x\<bar>" "\<bar>x\<bar> < 2 powr real_of_int (53 + k)"
    and "- 1074 \<le> k" "k \<le> 970"
  shows "toDouble x = Num (real_of_int (roundEven (x / 2 powr real_of_int k)) * 2 powr real_of_int k)"
proof -
  have e: "\<lfloor>log 2 \<bar>x\<bar>\<rfloor> = 52 + k"
    using assms(1,2) by (intro floor_log2_binade) (simp_all add: add.commute add.left_commute)
  have q: "quantumExp x = k" using assms(3) by (simp add: quantumExp_def e)
  have nz: "x \<noteq> 0" using assms(1) by (smt (verit) powr_gt_zero)
  let ?q = "2 powr real_of_int k"
  let ?r = "real_of_int (roundEven (x / ?q)) * ?q"
  have "\<bar>real_of_int (roundEven (x / ?q)) - x / ?q\<bar> \<le> 1 / 2" by (rule roundEven_error)
  then have "\<bar>real_of_int (roundEven (x / ?q))\<bar> \<le> \<bar>x / ?q\<bar> + 1 / 2" by linarith
  also have "\<bar>x / ?q\<bar> = \<bar>x\<bar> / ?q" by simp
  also have "\<bar>x\<bar> / ?q < 2 powr real_of_int (53 + k) / ?q"
    using assms(2) by (simp add: divide_strict_right_mono)
  also have "2 powr real_of_int (53 + k) / ?q = 2 ^ 53"
    by (simp add: powr_add)
  finally have "\<bar>real_of_int (roundEven (x / ?q))\<bar> < 2 ^ 53 + 1 / 2" by simp
  then have "real_of_int \<bar>roundEven (x / ?q)\<bar> < real_of_int (2 ^ 53 + 1)" by simp
  then have "\<bar>roundEven (x / ?q)\<bar> < 2 ^ 53 + 1" by (simp only: of_int_less_iff)
  then have "\<bar>roundEven (x / ?q)\<bar> \<le> 2 ^ 53" by simp
  then have "real_of_int \<bar>roundEven (x / ?q)\<bar> \<le> real_of_int (2 ^ 53)" by (simp only: of_int_le_iff)
  then have "\<bar>real_of_int (roundEven (x / ?q))\<bar> \<le> 2 ^ 53" by simp
  then have "\<bar>?r\<bar> \<le> 2 ^ 53 * ?q" by (simp add: abs_mult)
  also have "2 ^ 53 * ?q \<le> 2 ^ 53 * 2 powr real_of_int 970"
  proof -
    have "?q \<le> 2 powr real_of_int 970" by (intro powr_mono) (use assms(4) in simp_all)
    then show ?thesis by (simp only: mult_le_cancel_left_pos zero_less_power zero_less_numeral)
  qed
  also have "\<dots> = 2 ^ 1023" by simp
  also have "\<dots> < (2::real) ^ 1024" by simp
  finally have "\<not> 2 ^ 1024 \<le> \<bar>?r\<bar>" by simp
  then show ?thesis using nz by (simp add: toDouble_def q Let_def)
qed


lemma toDouble_near:
  assumes "2 powr real_of_int (52 + k) \<le> \<bar>x\<bar>" "\<bar>x\<bar> < 2 powr real_of_int (53 + k)"
    and "- 1074 \<le> k" "k \<le> 970"
    and "\<bar>x / 2 powr real_of_int k - real_of_int m\<bar> < 1 / 2"
  shows "toDouble x = Num (real_of_int m * 2 powr real_of_int k)"
  using toDouble_binade[OF assms(1-4)] roundEven_near[OF assms(5)] by simp

lemma two_powr_nat: "2 powr real_of_int (int n) = (2::real) ^ n"
  by (simp add: powr_realpow)

lemma two_powr_neg: "2 powr real_of_int (- int n) = 1 / (2::real) ^ n"
  by (simp add: powr_minus powr_realpow divide_simps)

lemma toDouble_up:
  assumes "2 ^ (52 + n) \<le> \<bar>x\<bar>" "\<bar>x\<bar> < 2 ^ (53 + n)" "n \<le> 970"
    and "\<bar>x / 2 ^ n - real_of_int m\<bar> < 1 / 2"
  shows "toDouble x = Num (real_of_int m * 2 ^ n)"
proof -
  have a: "2 powr real_of_int (52 + int n) = (2::real) ^ (52 + n)"
    using two_powr_nat[of "52 + n"] by simp
  have b: "2 powr real_of_int (53 + int n) = (2::real) ^ (53 + n)"
    using two_powr_nat[of "53 + n"] by simp
  show ?thesis
    using toDouble_near[of "int n" x m] assms unfolding a b two_powr_nat by simp
qed

lemma toDouble_down:
  assumes "2 ^ 52 \<le> \<bar>x\<bar> * 2 ^ n" "\<bar>x\<bar> * 2 ^ n < 2 ^ 53" "n \<le> 1074"
    and "\<bar>x * 2 ^ n - real_of_int m\<bar> < 1 / 2"
  shows "toDouble x = Num (real_of_int m / 2 ^ n)"
proof -
  have a: "2 powr real_of_int (52 + - int n) = (2::real) ^ 52 / 2 ^ n"
    by (simp add: powr_diff powr_realpow)
  have b: "2 powr real_of_int (53 + - int n) = (2::real) ^ 53 / 2 ^ n"
    by (simp add: powr_diff powr_realpow)
  have c: "2 ^ 52 / 2 ^ n \<le> \<bar>x\<bar>" using assms(1) by (simp add: field_simps)
  have d: "\<bar>x\<bar> < 2 ^ 53 / 2 ^ n" using assms(2) by (simp add: field_simps)
  show ?thesis
    using toDouble_near[of "- int n" x m] assms(3,4) c d unfolding a b two_powr_neg by simp
qed

lemma toDouble_zero: "toDouble 0 = Num 0"
  by (simp add: toDouble_def)

text \<open>A tick loop whose increment is absorbed by the loop variable never ends.\<close>

lemma tickLoopD_stuck:
  assumes "tickLoopD body stp hi v acc = Some r"
  shows "\<not> (jsLe v hi \<and> jsAdd v stp = v)"
proof (rule tickLoopD.raw_induct[where P = "\<lambda>b s h w a y. \<not> (jsLe w h \<and> jsAdd w s = w)", OF _ assms])
  fix tl and body :: "jsnum \<Rightarrow> cmd list" and stp hi v :: jsnum and acc r :: "cmd list"
  assume IH: "\<And>b s h w a y. tl b s h w a = Some y \<Longrightarrow> \<not> (jsLe w h \<and> jsAdd w s = w)"
    and unfolded: "(if jsLe v hi then tl body stp hi (jsAdd v stp) (acc @ body v) else Some acc) = Some r"
  show "\<not> (jsLe v hi \<and> jsAdd v stp = v)"
  proof
    assume a: "jsLe v hi \<and> jsAdd v stp = v"
    with unfolded have "tl body stp hi v (acc @ body v) = Some r" by simp
    from IH[OF this] a show False by simp
  qed
qed

lemma tickLoopD_absorbed:
  assumes "jsLe v hi" "jsAdd v stp = v"
  shows "tickLoopD body stp hi v acc = None"
  using tickLoopD_stuck[of body stp hi v acc] assms by (cases "tickLoopD body stp hi v acc") auto

subsection \<open>Rounding errors\<close>












lemma jsNeg_jsNeg [simp]: "jsNeg (jsNeg a) = a"
  by (cases a) simp_all








subsection \<open>The round trip\<close>






subsection \<open>The pan\<close>






subsection \<open>The anchored zoom\<close>









subsection \<open>The grid loop\<close>

text \<open>
  Claim C10 (termination of the grid loops): the code does not keep it. From the state
  after loading, on a viewport of 800 by 600, press the button at \<open>(0, 0)\<close> and move the
  mouse to \<open>x = 10^19\<close>. The scale is still 40 and the step is 2, for every
  \<^verbatim>\<open>Math.log10\<close> that puts \<open>log10(2)\<close> between 0 and 1 and every \<^verbatim>\<open>Math.pow\<close>
  with \<open>pow(10, 0) = 1\<close>; the horizontal offset is \<open>2.5 * 10^17\<close>, where neighbouring
  doubles are 32 apart. Both bounds of the first tick loop are \<open>-2.5 * 10^17\<close>, adding
  the step leaves the loop variable unchanged, and \<^verbatim>\<open>drawGrid\<close> never returns.
\<close>

theorem grid_loop_never_ends:
  assumes "log10 (Num 2) = Num l" "0 \<le> l" "l < 1" "pow (Num 10) (Num 0) = Num 1"
  shows "offsetXD (mousemoveD (Num 10000000000000000000) (Num 0) (mousedownD 0 (Num 0) (Num 0) (initial_plotD 800 600))) = Num 250000000000000000 \<and>
         calculateStepD log10 pow (mousemoveD (Num 10000000000000000000) (Num 0) (mousedownD 0 (Num 0) (Num 0) (initial_plotD 800 600))) = Num 2 \<and>
         drawGridD log10 pow xBody yBody before after (mousemoveD (Num 10000000000000000000) (Num 0) (mousedownD 0 (Num 0) (Num 0) (initial_plotD 800 600))) = None"
proof -
  have r1: "toDouble (400) = Num (400)"
    using toDouble_down[of "400" 44 7036874417766400] by simp
  have r2: "toDouble (300) = Num (300)"
    using toDouble_down[of "300" 44 5277655813324800] by simp
  have r3: "toDouble (10000000000000000000) = Num (10000000000000000000)"
    using toDouble_up[of 11 "10000000000000000000" 4882812500000000] by simp
  have r4: "toDouble (250000000000000000) = Num (250000000000000000)"
    using toDouble_up[of 5 "250000000000000000" 7812500000000000] by simp
  have r5: "toDouble (2) = Num (2)"
    using toDouble_down[of "2" 51 4503599627370496] by simp
  have r6: "toDouble (- 10) = Num (- 10)"
    using toDouble_down[of "- 10" 49 "- 5629499534213120"] by simp
  have r7: "toDouble (- 250000000000000010) = Num (- 250000000000000000)"
    using toDouble_up[of 5 "- 250000000000000010" "- 7812500000000000"] by simp
  have r8: "toDouble (10) = Num (10)"
    using toDouble_down[of "10" 49 5629499534213120] by simp
  have r9: "toDouble (- 249999999999999990) = Num (- 250000000000000000)"
    using toDouble_up[of 5 "- 249999999999999990" "- 7812500000000000"] by simp
  have r10: "toDouble (- 125000000000000000) = Num (- 125000000000000000)"
    using toDouble_up[of 4 "- 125000000000000000" "- 7812500000000000"] by simp
  have r11: "toDouble (- 250000000000000000) = Num (- 250000000000000000)"
    using toDouble_up[of 5 "- 250000000000000000" "- 7812500000000000"] by simp
  have r12: "toDouble (- 249999999999999998) = Num (- 250000000000000000)"
    using toDouble_up[of 5 "- 249999999999999998" "- 7812500000000000"] by simp
  have fl: "\<lfloor>l\<rfloor> = 0" using assms(2,3) by (simp add: floor_eq_iff)
  let ?s = "(mousemoveD (Num 10000000000000000000) (Num 0) (mousedownD 0 (Num 0) (Num 0) (initial_plotD 800 600)))"
  have st: "scaleD ?s = Num 40" "offsetXD ?s = Num 250000000000000000" "offsetYD ?s = Num 0"
    "centerXD ?s = Num 400" "centerYD ?s = Num 300" "widthD ?s = 800" "heightD ?s = 600"
    by (simp_all add: mousemoveD_def mousedownD_def Let_def initial_plotD_def jsSub_def
        toDouble_zero r1 r2 r3 r4 r5 r6 r7 r8 r9 r10 r11 r12)
  have stp: "calculateStepD log10 pow ?s = Num 2"
    by (simp add: calculateStepD_def Let_def st assms(1,4) fl r1 r2 r3 r4 r5 r6 r7 r8 r9 r10 r11 r12)
  have loop: "tickLoopD xBody (Num 2) (Num (- 250000000000000000)) (Num (- 250000000000000000)) before = None"
    by (rule tickLoopD_absorbed) (simp_all add: r1 r2 r3 r4 r5 r6 r7 r8 r9 r10 r11 r12)
  have "drawGridD log10 pow xBody yBody before after ?s = None"
    by (simp add: drawGridD_def Let_def st stp jsSub_def loop r1 r2 r3 r4 r5 r6 r7 r8 r9 r10 r11 r12)
  then show ?thesis using st(2) stp by simp
qed

theorem grid_loop_never_ends_witness:
  "drawGridD (\<lambda>v. Num (3 / 10)) (\<lambda>b e. Num 1) (\<lambda>v. []) (\<lambda>v. []) [] []
     (mousemoveD (Num 10000000000000000000) (Num 0)
        (mousedownD 0 (Num 0) (Num 0) (initial_plotD 800 600))) = None"
proof -
  have "(\<lambda>v. Num (3 / 10)) (Num 2) = Num (3 / 10)" "(0::real) \<le> 3 / 10" "(3::real) / 10 < 1"
    "(\<lambda>b e. Num 1) (Num 10) (Num 0) = Num 1"
    by simp_all
  from grid_loop_never_ends[OF this] show ?thesis by blast
qed

end
